theory Spec2Isabelle
  imports Complex_Main
begin

section \<open>ThalAI Guardian: the donor availability scoring service (app.py)\<close>

text \<open>
  A shallow embedding of \<^verbatim>\<open>thalai-ai-service/app.py\<close>. Python integers are \<open>int\<close>.
  Python floats are modelled by the real number they denote: rounding error, infinities
  and NaN of IEEE arithmetic are outside the model, while the \<^verbatim>\<open>OverflowError\<close> of a
  division whose quotient is beyond the range of a float is in it. Exceptions are values of
  \<open>py_error\<close>; a function that can raise returns \<open>py_error + 'a\<close>, with \<open>Inl\<close> the
  exception that leaves it.
\<close>

datatype py_error =
  ValueError | TypeError | AttributeError | ZeroDivisionError | OverflowError

subsection \<open>calculate_fallback_score\<close>

text \<open>
  The three \<^verbatim>\<open>if/elif\<close> chains of \<^verbatim>\<open>calculate_fallback_score\<close>, each updating the
  local variable \<^verbatim>\<open>score\<close>, in the order of the source. \<open>fallback_sum\<close> is the value of
  \<^verbatim>\<open>score\<close> when the \<^verbatim>\<open>return\<close> statement is reached, before the clamp.
\<close>

definition age_factor :: "int \<Rightarrow> int \<Rightarrow> int" where
  "age_factor age score =
     (if 25 \<le> age \<and> age \<le> 45 then score + 15
      else if (18 \<le> age \<and> age < 25) \<or> (45 < age \<and> age \<le> 60) then score + 10
      else score + 5)"

definition frequency_factor :: "int \<Rightarrow> int \<Rightarrow> int" where
  "frequency_factor donation_frequency score =
     (if donation_frequency \<ge> 10 then score + 20
      else if donation_frequency \<ge> 5 then score + 15
      else if donation_frequency \<ge> 2 then score + 10
      else if donation_frequency \<ge> 1 then score + 5
      else score)"

definition recency_factor :: "int \<Rightarrow> int \<Rightarrow> int" where
  "recency_factor days_since score =
     (if 56 \<le> days_since \<and> days_since \<le> 90 then score + 15
      else if 30 \<le> days_since \<and> days_since < 56 then score + 10
      else if 90 < days_since \<and> days_since \<le> 180 then score + 5
      else if days_since > 180 then score - 5
      else score)"

definition fallback_sum :: "int \<Rightarrow> int \<Rightarrow> int \<Rightarrow> int" where
  "fallback_sum age donation_frequency days_since =
     recency_factor days_since (frequency_factor donation_frequency (age_factor age 50))"

definition calculate_fallback_score :: "int \<Rightarrow> int \<Rightarrow> int \<Rightarrow> int" where
  "calculate_fallback_score age donation_frequency days_since =
     max 0 (min 100 (fallback_sum age donation_frequency days_since))"

subsection \<open>calculate_days_since_last_donation\<close>

text \<open>
  A \<^verbatim>\<open>datetime\<close> is its wall-clock reading, in microseconds from a fixed origin, and
  its optional time zone (the UTC offset in microseconds); \<^verbatim>\<open>replace(tzinfo=None)\<close>
  drops the zone and keeps the reading. The argument of the function is any Python
  value: \<^verbatim>\<open>None\<close>, a string, a \<^verbatim>\<open>datetime\<close>, or a value of another type, of which
  only its truth value matters (a number, a list, a dictionary, a \<^verbatim>\<open>date\<close>: none of
  them has a \<^verbatim>\<open>replace\<close> method that accepts \<^verbatim>\<open>tzinfo\<close>).
\<close>

record datetime =
  wall_us :: int
  tzinfo :: "int option"

datatype py_value = PyNone | PyStr string | PyDatetime datetime | PyOther bool

fun truthy :: "py_value \<Rightarrow> bool" where
  "truthy PyNone = False"
| "truthy (PyStr s) = (s \<noteq> [])"
| "truthy (PyDatetime d) = True"
| "truthy (PyOther b) = b"

text \<open>\<^verbatim>\<open>s.replace('Z', '+00:00')\<close>: every occurrence of the character is replaced.\<close>

fun replace_Z :: "string \<Rightarrow> string" where
  "replace_Z [] = []"
| "replace_Z (c # cs) =
     (if c = CHR ''Z'' then ''+00:00'' @ replace_Z cs else c # replace_Z cs)"

fun replace_tzinfo_None :: "py_value \<Rightarrow> py_error + datetime" where
  "replace_tzinfo_None (PyDatetime d) = Inr (d\<lparr>tzinfo := None\<rparr>)"
| "replace_tzinfo_None (PyOther b) = Inl AttributeError"
| "replace_tzinfo_None PyNone = Inl AttributeError"
| "replace_tzinfo_None (PyStr s) = Inl TypeError"

text \<open>
  Subtraction of two \<^verbatim>\<open>datetime\<close> values gives a \<^verbatim>\<open>timedelta\<close>, here its length in
  microseconds; Python refuses to subtract an aware value from a naive one. The
  \<^verbatim>\<open>days\<close> attribute of a \<^verbatim>\<open>timedelta\<close> is the floor of its length in days.
\<close>

definition us_per_day :: int where
  "us_per_day = 86400 * 1000000"

definition datetime_sub :: "datetime \<Rightarrow> datetime \<Rightarrow> py_error + int" where
  "datetime_sub a b =
     (case (tzinfo a, tzinfo b) of
        (None, None) \<Rightarrow> Inr (wall_us a - wall_us b)
      | (Some oa, Some ob) \<Rightarrow> Inr ((wall_us a - oa) - (wall_us b - ob))
      | (None, Some ob) \<Rightarrow> Inl TypeError
      | (Some oa, None) \<Rightarrow> Inl TypeError)"

definition timedelta_days :: "int \<Rightarrow> int" where
  "timedelta_days td = td div us_per_day"

text \<open>
  The body of the \<^verbatim>\<open>try\<close> block. \<open>fromisoformat\<close> is \<^verbatim>\<open>datetime.fromisoformat\<close> of the
  standard library, a parameter of the model: it returns a \<^verbatim>\<open>datetime\<close> or raises.
  \<open>now\<close> is the reading of the local clock, \<^verbatim>\<open>datetime.now()\<close>, which has no zone.
\<close>

definition days_since_try ::
  "(string \<Rightarrow> py_error + datetime) \<Rightarrow> int \<Rightarrow> py_value \<Rightarrow> py_error + int" where
  "days_since_try fromisoformat now last_donation_date =
     (case (case last_donation_date of
              PyStr s \<Rightarrow>
                (case fromisoformat (replace_Z s) of
                   Inl e \<Rightarrow> Inl e
                 | Inr d \<Rightarrow> Inr (PyDatetime d))
            | PyNone \<Rightarrow> Inr last_donation_date
            | PyDatetime d \<Rightarrow> Inr last_donation_date
            | PyOther b \<Rightarrow> Inr last_donation_date) of
        Inl e \<Rightarrow> Inl e
      | Inr last_date \<Rightarrow>
          (case replace_tzinfo_None last_date of
             Inl e \<Rightarrow> Inl e
           | Inr naive \<Rightarrow>
               (case datetime_sub \<lparr>wall_us = now, tzinfo = None\<rparr> naive of
                  Inl e \<Rightarrow> Inl e
                | Inr td \<Rightarrow> Inr (max 0 (timedelta_days td)))))"

definition calculate_days_since_last_donation ::
  "(string \<Rightarrow> py_error + datetime) \<Rightarrow> int \<Rightarrow> py_value \<Rightarrow> int" where
  "calculate_days_since_last_donation fromisoformat now last_donation_date =
     (if \<not> truthy last_donation_date then 365
      else (case days_since_try fromisoformat now last_donation_date of
              Inr days \<Rightarrow> days
            | Inl e \<Rightarrow> 365))"

subsection \<open>predict_availability\<close>

text \<open>\<^verbatim>\<open>d.get(key, default)\<close> of a dictionary, on the result of looking the key up.\<close>

definition dict_get :: "'a option \<Rightarrow> 'a \<Rightarrow> 'a" where
  "dict_get entry dflt = (case entry of Some v \<Rightarrow> v | None \<Rightarrow> dflt)"

text \<open>
  \<^verbatim>\<open>str.lower\<close> on the letters \<open>A\<close> to \<open>Z\<close>; a string is a list of bytes, and the
  bytes of a character outside ASCII are left as they are. (The only character outside
  ASCII that Python lowers to an ASCII letter is the Kelvin sign, to \<open>k\<close>; the one key of
  the table with a \<open>k\<close> is \<open>unknown\<close>, whose value is the default.)
\<close>

definition lower_char :: "char \<Rightarrow> char" where
  "lower_char c =
     dict_get (map_of (zip ''ABCDEFGHIJKLMNOPQRSTUVWXYZ'' ''abcdefghijklmnopqrstuvwxyz'') c) c"

definition lower :: "string \<Rightarrow> string" where
  "lower s = map lower_char s"

definition region_map :: "(string \<times> real) list" where
  "region_map =
     [(''north'', 0.2), (''south'', 0.3), (''east'', 0.25), (''west'', 0.25),
      (''central'', 0.3), (''unknown'', 0.2)]"

definition region_factor :: "string \<Rightarrow> real" where
  "region_factor region = dict_get (map_of region_map (lower region)) 0.2"

definition health_flags_count :: "string list \<Rightarrow> nat" where
  "health_flags_count health_flags = (if health_flags \<noteq> [] then length health_flags else 0)"

text \<open>
  The division \<^verbatim>\<open>/\<close> of two Python integers. It raises \<^verbatim>\<open>ZeroDivisionError\<close> on a zero
  divisor. Otherwise the result is the float nearest to the quotient, and the division
  raises \<^verbatim>\<open>OverflowError\<close> when that float is not finite: the largest float is
  \<open>2^1024 - 2^971\<close>, and a quotient of magnitude \<open>2^1024 - 2^970\<close> or more, half a step
  beyond it, rounds to infinity.
\<close>

definition float_overflow :: "real \<Rightarrow> bool" where
  "float_overflow x = (2 ^ 1024 - 2 ^ 970 \<le> \<bar>x\<bar>)"

definition py_truediv :: "int \<Rightarrow> int \<Rightarrow> py_error + real" where
  "py_truediv a b =
     (if b = 0 then Inl ZeroDivisionError
      else if float_overflow (real_of_int a / real_of_int b) then Inl OverflowError
      else Inr (real_of_int a / real_of_int b))"

text \<open>
  The row of the array \<^verbatim>\<open>features\<close>, in the order of the source. The two quotients are
  evaluated while the row is built, outside any \<^verbatim>\<open>try\<close>; the constructor \<^verbatim>\<open>np.array\<close>
  is taken to accept every row of numbers.
\<close>

definition feature_vector :: "int \<Rightarrow> int \<Rightarrow> int \<Rightarrow> real \<Rightarrow> nat \<Rightarrow> py_error + real list" where
  "feature_vector age donation_frequency days_since region_fac flags_count =
     (case py_truediv donation_frequency (max (age - 18) 1) of
        Inl e \<Rightarrow> Inl e
      | Inr rate \<Rightarrow>
          (case py_truediv (max 0 (90 - days_since)) 90 of
             Inl e \<Rightarrow> Inl e
           | Inr recency \<Rightarrow>
               Inr [real_of_int age, real_of_int donation_frequency, real_of_int days_since,
                    region_fac, real flags_count, rate, recency]))"

text \<open>
  The dictionary \<^verbatim>\<open>donor_data\<close>: a field is \<open>None\<close> when the key is absent. The fields
  have the types of a donor record (an integer age and frequency, a string region, a
  list of flags); the date is any Python value.
\<close>

record donor_data =
  dd_age :: "int option"
  dd_donationFrequency :: "int option"
  dd_lastDonationDate :: "py_value option"
  dd_region :: "string option"
  dd_healthFlags :: "string list option"

text \<open>
  The module's globals \<^verbatim>\<open>model\<close> and \<^verbatim>\<open>scaler\<close>: \<open>None\<close>, or a loaded object, which is
  its method (\<^verbatim>\<open>predict\<close> followed by \<^verbatim>\<open>[0]\<close>, or \<^verbatim>\<open>transform\<close>). Either may raise.
\<close>

record globals =
  g_model :: "(real list \<Rightarrow> py_error + real) option"
  g_scaler :: "(real list \<Rightarrow> py_error + real list) option"

text \<open>
  \<^verbatim>\<open>round(score, 2)\<close>: the nearest multiple of \<open>1/100\<close>, a tie going to the even
  multiple. An integer score is returned unchanged by Python, and by this function.
\<close>

definition rint :: "real \<Rightarrow> int" where
  "rint x =
     (let f = \<lfloor>x\<rfloor>; r = x - of_int f
      in if r < 1 / 2 then f else if 1 / 2 < r then f + 1 else if even f then f else f + 1)"

definition round2 :: "real \<Rightarrow> real" where
  "round2 x = of_int (rint (x * 100)) / 100"

text \<open>Lines 71 to 104: the features of a donor.\<close>

definition donor_age :: "donor_data \<Rightarrow> int" where
  "donor_age donor = dict_get (dd_age donor) 30"

definition donor_frequency :: "donor_data \<Rightarrow> int" where
  "donor_frequency donor = dict_get (dd_donationFrequency donor) 0"

definition donor_days_since ::
  "(string \<Rightarrow> py_error + datetime) \<Rightarrow> int \<Rightarrow> donor_data \<Rightarrow> int" where
  "donor_days_since fromisoformat now donor =
     calculate_days_since_last_donation fromisoformat now
       (dict_get (dd_lastDonationDate donor) PyNone)"

definition extract_features ::
  "(string \<Rightarrow> py_error + datetime) \<Rightarrow> int \<Rightarrow> donor_data \<Rightarrow> py_error + real list" where
  "extract_features fromisoformat now donor =
     feature_vector (donor_age donor) (donor_frequency donor)
       (donor_days_since fromisoformat now donor)
       (region_factor (dict_get (dd_region donor) ''unknown''))
       (health_flags_count (dict_get (dd_healthFlags donor) []))"

text \<open>Lines 106 to 108: the scaler, outside any \<^verbatim>\<open>try\<close>.\<close>

definition scale_features :: "globals \<Rightarrow> real list \<Rightarrow> py_error + real list" where
  "scale_features g features =
     (case g_scaler g of Some transform \<Rightarrow> transform features | None \<Rightarrow> Inr features)"

text \<open>Lines 110 to 119: the model inside a \<^verbatim>\<open>try\<close>, or the fallback.\<close>

definition choose_score :: "globals \<Rightarrow> real list \<Rightarrow> int \<Rightarrow> int \<Rightarrow> int \<Rightarrow> real" where
  "choose_score g features age donation_frequency days_since =
     (case g_model g of
        Some predict \<Rightarrow>
          (case predict features of
             Inr prediction \<Rightarrow> max 0 (min 100 (prediction * 100))
           | Inl e \<Rightarrow> real_of_int (calculate_fallback_score age donation_frequency days_since))
      | None \<Rightarrow> real_of_int (calculate_fallback_score age donation_frequency days_since))"

definition predict_availability ::
  "globals \<Rightarrow> (string \<Rightarrow> py_error + datetime) \<Rightarrow> int \<Rightarrow> donor_data \<Rightarrow> py_error + real" where
  "predict_availability g fromisoformat now donor =
     (case extract_features fromisoformat now donor of
        Inl e \<Rightarrow> Inl e
      | Inr features \<Rightarrow>
          (case scale_features g features of
             Inl e \<Rightarrow> Inl e
           | Inr scaled \<Rightarrow>
               Inr (round2 (choose_score g scaled (donor_age donor) (donor_frequency donor)
                              (donor_days_since fromisoformat now donor)))))"

subsection \<open>The endpoint predict\<close>

text \<open>
  The JSON object of the request: a field is \<open>None\<close> when the key is absent, and
  \<open>rq_other_keys\<close> says whether the object has a key that the handler does not read. The
  body \<^verbatim>\<open>request.json\<close> is \<open>None\<close> when it is the JSON \<^verbatim>\<open>null\<close>.
\<close>

record request_json =
  rq_donorId :: "string option"
  rq_age :: "int option"
  rq_donationFrequency :: "int option"
  rq_lastDonationDate :: "py_value option"
  rq_region :: "string option"
  rq_healthFlags :: "string list option"
  rq_other_keys :: bool

definition empty_dict :: "request_json \<Rightarrow> bool" where
  "empty_dict data =
     (rq_donorId data = None \<and> rq_age data = None \<and> rq_donationFrequency data = None
      \<and> rq_lastDonationDate data = None \<and> rq_region data = None
      \<and> rq_healthFlags data = None \<and> \<not> rq_other_keys data)"

record prediction_result =
  success :: bool
  donorId :: "string option"
  availabilityScore :: real
  confidence :: real
  model_used :: string

datatype http_response =
  Http200 prediction_result
| Http400 string
| Http500 py_error

definition predict ::
  "globals \<Rightarrow> (string \<Rightarrow> py_error + datetime) \<Rightarrow> int \<Rightarrow> request_json option \<Rightarrow> http_response" where
  "predict g fromisoformat now body =
     (case body of
        None \<Rightarrow> Http400 ''No data provided''
      | Some data \<Rightarrow>
          if empty_dict data then Http400 ''No data provided''
          else
            (let donor = \<lparr>dd_age = Some (dict_get (rq_age data) 30),
                          dd_donationFrequency = Some (dict_get (rq_donationFrequency data) 0),
                          dd_lastDonationDate = Some (dict_get (rq_lastDonationDate data) PyNone),
                          dd_region = Some (dict_get (rq_region data) ''unknown''),
                          dd_healthFlags = Some (dict_get (rq_healthFlags data) [])\<rparr>
             in case predict_availability g fromisoformat now donor of
                  Inl e \<Rightarrow> Http500 e
                | Inr availability_score \<Rightarrow>
                    Http200 \<lparr>success = True,
                             donorId = rq_donorId data,
                             availabilityScore = availability_score,
                             confidence = (if g_model g \<noteq> None then 0.85 else 0.70),
                             model_used = (if g_model g \<noteq> None then ''trained'' else ''fallback'')\<rparr>))"

subsection \<open>A parser for the examples\<close>

text \<open>
  An instance of the parameter \<open>fromisoformat\<close>, for evaluating the model on concrete
  requests: it reads one timestamp and raises \<^verbatim>\<open>ValueError\<close> on every other string.
\<close>

definition example_fromisoformat :: "string \<Rightarrow> py_error + datetime" where
  "example_fromisoformat s =
     (if s = ''2024-01-01T00:00:00+00:00'' then Inr \<lparr>wall_us = 0, tzinfo = Some 0\<rparr>
      else Inl ValueError)"

definition example_donor :: donor_data where
  "example_donor =
     \<lparr>dd_age = Some 30, dd_donationFrequency = Some 5, dd_lastDonationDate = None,
      dd_region = Some ''south'', dd_healthFlags = Some []\<rparr>"

subsection \<open>The derived features, as the specification words them\<close>

definition spec_donationRate :: "int \<Rightarrow> int \<Rightarrow> real" where
  "spec_donationRate donationFrequency age =
     real_of_int donationFrequency / real_of_int (max (age - 18) 1)"

definition spec_recencyScore :: "int \<Rightarrow> real" where
  "spec_recencyScore daysSince = real_of_int (max 0 (90 - daysSince)) / 90"

subsection \<open>The bands of the specification's table\<close>

text \<open>
  The table of the specification, row by row: \<open>spec_age_band age a\<close> says that some row
  of the age factor whose condition holds of \<open>age\<close> gives the adjustment \<open>a\<close>, and likewise
  for the other two factors. The frequency rows are \<open>\<ge>10\<close>, \<open>5-9\<close>, \<open>2-4\<close>, \<open>1\<close> and
  \<open>0\<close>; no row speaks of a negative frequency.
\<close>

definition spec_age_band :: "int \<Rightarrow> int \<Rightarrow> bool" where
  "spec_age_band age a =
     ((25 \<le> age \<and> age \<le> 45 \<and> a = 15)
      \<or> (((18 \<le> age \<and> age \<le> 24) \<or> (46 \<le> age \<and> age \<le> 60)) \<and> a = 10)
      \<or> (\<not> (25 \<le> age \<and> age \<le> 45)
          \<and> \<not> ((18 \<le> age \<and> age \<le> 24) \<or> (46 \<le> age \<and> age \<le> 60)) \<and> a = 5))"

definition spec_frequency_band :: "int \<Rightarrow> int \<Rightarrow> bool" where
  "spec_frequency_band f b =
     ((10 \<le> f \<and> b = 20)
      \<or> (5 \<le> f \<and> f \<le> 9 \<and> b = 15)
      \<or> (2 \<le> f \<and> f \<le> 4 \<and> b = 10)
      \<or> (f = 1 \<and> b = 5)
      \<or> (f = 0 \<and> b = 0))"

definition spec_recency_band :: "int \<Rightarrow> int \<Rightarrow> bool" where
  "spec_recency_band d c =
     ((56 \<le> d \<and> d \<le> 90 \<and> c = 15)
      \<or> (30 \<le> d \<and> d \<le> 55 \<and> c = 10)
      \<or> (91 \<le> d \<and> d \<le> 180 \<and> c = 5)
      \<or> (180 < d \<and> c = - 5)
      \<or> (d < 30 \<and> c = 0))"

section \<open>Properties\<close>

subsection \<open>The heuristic scorer\<close>

lemma fallback_sum_bounds:
  "50 \<le> fallback_sum age f d \<and> fallback_sum age f d \<le> 100"
  by (simp add: fallback_sum_def age_factor_def frequency_factor_def recency_factor_def)

text \<open>
  C10. For all integers \<open>age\<close>, \<open>donationFrequency \<ge> 0\<close> and \<open>daysSince \<ge> 0\<close> the heuristic
  score lies in \<open>[50, 100]\<close>, and the final clamp \<^verbatim>\<open>max(0, min(100, score))\<close> returns the
  computed sum unchanged. The extremes are reached: \<open>50 + 5 + 0 - 5 = 50\<close> and
  \<open>50 + 15 + 20 + 15 = 100\<close>.
\<close>

theorem calculate_fallback_score_range:
  assumes "0 \<le> f" and "0 \<le> d"
  shows "50 \<le> calculate_fallback_score age f d
       \<and> calculate_fallback_score age f d \<le> 100
       \<and> calculate_fallback_score age f d = fallback_sum age f d
       \<and> calculate_fallback_score 17 0 181 = 50 + 5 + 0 - 5
       \<and> calculate_fallback_score 30 10 60 = 50 + 15 + 20 + 15"
proof -
  have b: "50 \<le> fallback_sum age f d \<and> fallback_sum age f d \<le> 100"
    by (rule fallback_sum_bounds)
  have lo: "calculate_fallback_score 17 0 181 = 50 + 5 + 0 - 5"
    by (simp add: calculate_fallback_score_def fallback_sum_def age_factor_def
        frequency_factor_def recency_factor_def)
  have hi: "calculate_fallback_score 30 10 60 = 50 + 15 + 20 + 15"
    by (simp add: calculate_fallback_score_def fallback_sum_def age_factor_def
        frequency_factor_def recency_factor_def)
  from b have "calculate_fallback_score age f d = fallback_sum age f d"
    by (simp add: calculate_fallback_score_def)
  with b lo hi show ?thesis by simp
qed

theorem calculate_fallback_score_range_witness:
  "(0::int) \<le> 3 \<and> (0::int) \<le> 200
   \<and> 50 \<le> calculate_fallback_score 70 3 200
   \<and> calculate_fallback_score 70 3 200 \<le> 100
   \<and> calculate_fallback_score 70 3 200 = fallback_sum 70 3 200
   \<and> calculate_fallback_score 70 3 200 = 60"
proof -
  have "calculate_fallback_score 70 3 200 = 60"
    by (simp add: calculate_fallback_score_def fallback_sum_def age_factor_def
        frequency_factor_def recency_factor_def)
  with calculate_fallback_score_range [of 3 200 70] show ?thesis by simp
qed

lemma age_band_factor: "spec_age_band age a \<Longrightarrow> age_factor age s = s + a"
  unfolding spec_age_band_def age_factor_def by auto

lemma frequency_band_factor:
  "spec_frequency_band f b \<or> (f < 0 \<and> b = 0) \<Longrightarrow> frequency_factor f s = s + b"
  unfolding spec_frequency_band_def frequency_factor_def by auto

lemma recency_band_factor: "spec_recency_band d c \<Longrightarrow> recency_factor d s = s + c"
  unfolding spec_recency_band_def recency_factor_def by auto

lemma bands_exactly_one:
  "(\<exists>!a. spec_age_band age a)
   \<and> (\<exists>!b. spec_frequency_band f b \<or> (f < 0 \<and> b = 0))
   \<and> (\<exists>!c. spec_recency_band d c)"
  unfolding spec_age_band_def spec_frequency_band_def spec_recency_band_def
  apply (intro conjI ex_ex1I)
       apply presburger
      apply linarith
     apply presburger
    apply linarith
   apply presburger
  apply linarith
  done

lemma band_boundaries:
  "age_factor 25 s = s + 15 \<and> age_factor 24 s = s + 10 \<and> age_factor 46 s = s + 10
   \<and> age_factor 61 s = s + 5
   \<and> frequency_factor 10 s = s + 20 \<and> frequency_factor 9 s = s + 15
   \<and> frequency_factor 1 s = s + 5 \<and> frequency_factor 0 s = s + 0
   \<and> recency_factor 56 s = s + 15 \<and> recency_factor 55 s = s + 10
   \<and> recency_factor 181 s = s - 5"
  by (simp add: age_factor_def frequency_factor_def recency_factor_def)

text \<open>
  C4. For all integers \<open>age\<close>, \<open>donationFrequency\<close> and \<open>daysSince\<close>, the heuristic score
  is 50 plus the adjustment of exactly one age band and exactly one recency band of the
  table, plus the adjustment of exactly one frequency band of the table when the
  frequency is not negative and \<open>+0\<close> when it is (the frequency rows, read as
  \<open>\<ge>10\<close>, \<open>5-9\<close>, \<open>2-4\<close>, \<open>1\<close>, \<open>\<le>0\<close>), clamped to \<open>[0, 100]\<close>. The literal band
  boundaries hold of the three \<^verbatim>\<open>if/elif\<close> chains of the code.
\<close>

theorem calculate_fallback_score_bands:
  "(\<exists>!a. spec_age_band age a)
   \<and> (\<exists>!b. spec_frequency_band f b \<or> (f < 0 \<and> b = 0))
   \<and> (\<exists>!c. spec_recency_band d c)
   \<and> (\<forall>a b c. spec_age_band age a \<and> (spec_frequency_band f b \<or> (f < 0 \<and> b = 0))
          \<and> spec_recency_band d c
        \<longrightarrow> calculate_fallback_score age f d = max 0 (min 100 (50 + a + b + c)))
   \<and> age_factor 25 s = s + 15 \<and> age_factor 24 s = s + 10 \<and> age_factor 46 s = s + 10
   \<and> age_factor 61 s = s + 5
   \<and> frequency_factor 10 s = s + 20 \<and> frequency_factor 9 s = s + 15
   \<and> frequency_factor 1 s = s + 5 \<and> frequency_factor 0 s = s + 0
   \<and> recency_factor 56 s = s + 15 \<and> recency_factor 55 s = s + 10
   \<and> recency_factor 181 s = s - 5"
proof -
  have sum: "\<forall>a b c. spec_age_band age a \<and> (spec_frequency_band f b \<or> (f < 0 \<and> b = 0))
          \<and> spec_recency_band d c
        \<longrightarrow> calculate_fallback_score age f d = max 0 (min 100 (50 + a + b + c))"
  proof (intro allI impI, elim conjE)
    fix a b c
    assume "spec_age_band age a" and "spec_frequency_band f b \<or> (f < 0 \<and> b = 0)"
      and "spec_recency_band d c"
    then have "fallback_sum age f d = 50 + a + b + c"
      by (simp add: fallback_sum_def age_band_factor frequency_band_factor
          recency_band_factor)
    then show "calculate_fallback_score age f d = max 0 (min 100 (50 + a + b + c))"
      by (simp add: calculate_fallback_score_def)
  qed
  show ?thesis
    using sum bands_exactly_one [of age f d] band_boundaries [of s]
    by (elim conjE) (intro conjI; assumption)
qed

theorem calculate_fallback_score_bands_witness:
  "spec_age_band 30 15 \<and> spec_frequency_band 5 15 \<and> spec_recency_band 75 15
   \<and> calculate_fallback_score 30 5 75 = 95"
proof -
  have a: "spec_age_band 30 15" by (simp add: spec_age_band_def)
  have b: "spec_frequency_band 5 15" by (simp add: spec_frequency_band_def)
  have c: "spec_recency_band 75 15" by (simp add: spec_recency_band_def)
  have "\<forall>a b c. spec_age_band 30 a \<and> (spec_frequency_band 5 b \<or> ((5::int) < 0 \<and> b = 0))
          \<and> spec_recency_band 75 c
        \<longrightarrow> calculate_fallback_score 30 5 75 = max 0 (min 100 (50 + a + b + c))"
    using calculate_fallback_score_bands [of 30 5 75 0] by (elim conjE)
  with a b c have "calculate_fallback_score 30 5 75 = max 0 (min 100 (50 + 15 + 15 + 15))"
    by (elim allE [of _ 15]) simp
  with a b c show ?thesis by simp
qed

text \<open>
  With the frequency rows as the table lists them, \<open>\<ge>10\<close>, \<open>5-9\<close>, \<open>2-4\<close>, \<open>1\<close> and \<open>0\<close>,
  the statement does not hold of every integer: the frequency \<open>-1\<close> is in no row, so
  the score at age 30, frequency \<open>-1\<close> and 75 days, which is \<open>80 = 50 + 15 + 0 + 15\<close>, is
  not 50 plus one adjustment of each factor.
\<close>

theorem calculate_fallback_score_bands_counterexample:
  "\<not> (\<exists>a b c. spec_age_band 30 a \<and> spec_frequency_band (- 1) b \<and> spec_recency_band 75 c
          \<and> calculate_fallback_score 30 (- 1) 75 = max 0 (min 100 (50 + a + b + c)))
   \<and> \<not> (\<exists>b. spec_frequency_band (- 1) b)
   \<and> calculate_fallback_score 30 (- 1) 75 = 80"
proof -
  have none: "\<not> (\<exists>b. spec_frequency_band (- 1) b)"
    by (simp add: spec_frequency_band_def)
  have val: "calculate_fallback_score 30 (- 1) 75 = 80"
    by (simp add: calculate_fallback_score_def fallback_sum_def age_factor_def
        frequency_factor_def recency_factor_def)
  from none have "\<not> (\<exists>a b c. spec_age_band 30 a \<and> spec_frequency_band (- 1) b
          \<and> spec_recency_band 75 c
          \<and> calculate_fallback_score 30 (- 1) 75 = max 0 (min 100 (50 + a + b + c)))"
    by blast
  with none val show ?thesis by (intro conjI)
qed

subsection \<open>Days since the last donation\<close>

lemma days_since_try_datetime:
  "days_since_try fi now (PyDatetime d) = Inr (max 0 ((now - wall_us d) div us_per_day))"
  by (simp add: days_since_try_def datetime_sub_def timedelta_days_def)

lemma days_since_try_str:
  "days_since_try fi now (PyStr s) =
     (case fi (replace_Z s) of
        Inl e \<Rightarrow> Inl e
      | Inr d \<Rightarrow> Inr (max 0 ((now - wall_us d) div us_per_day)))"
  by (simp add: days_since_try_def datetime_sub_def timedelta_days_def split: sum.splits)

lemma days_since_nonneg: "0 \<le> calculate_days_since_last_donation fi now v"
  by (cases v)
    (simp_all add: calculate_days_since_last_donation_def days_since_try_datetime
      days_since_try_str days_since_try_def split: sum.splits)

text \<open>
  C5. \<^verbatim>\<open>calculate_days_since_last_donation\<close> returns 365 on \<^verbatim>\<open>None\<close>; it returns 365,
  and raises nothing, on a string that the parser rejects and on a value of an
  unsupported type; on a timestamp that parses (a non-empty string, since the empty
  string is false in Python and never reaches the parser) and on a \<^verbatim>\<open>datetime\<close> it
  returns the whole days elapsed, or 0 when that is negative; so its result is never
  negative. The function of the model is total: no exception is a possible result.
\<close>

theorem calculate_days_since_last_donation_cases:
  "calculate_days_since_last_donation fi now PyNone = 365
   \<and> (\<forall>e. fi (replace_Z s) = Inl e \<longrightarrow>
         calculate_days_since_last_donation fi now (PyStr s) = 365)
   \<and> calculate_days_since_last_donation fi now (PyOther b) = 365
   \<and> (\<forall>d. s \<noteq> [] \<and> fi (replace_Z s) = Inr d \<longrightarrow>
         calculate_days_since_last_donation fi now (PyStr s)
           = max 0 ((now - wall_us d) div us_per_day))
   \<and> calculate_days_since_last_donation fi now (PyDatetime dt)
        = max 0 ((now - wall_us dt) div us_per_day)
   \<and> 0 \<le> calculate_days_since_last_donation fi now v"
proof -
  have none: "calculate_days_since_last_donation fi now PyNone = 365"
    by (simp add: calculate_days_since_last_donation_def)
  have bad: "\<forall>e. fi (replace_Z s) = Inl e \<longrightarrow>
         calculate_days_since_last_donation fi now (PyStr s) = 365"
    by (auto simp: calculate_days_since_last_donation_def days_since_try_str)
  have other: "calculate_days_since_last_donation fi now (PyOther b) = 365"
    by (simp add: calculate_days_since_last_donation_def days_since_try_def)
  have good: "\<forall>d. s \<noteq> [] \<and> fi (replace_Z s) = Inr d \<longrightarrow>
         calculate_days_since_last_donation fi now (PyStr s)
           = max 0 ((now - wall_us d) div us_per_day)"
    by (simp add: calculate_days_since_last_donation_def days_since_try_str)
  have dt: "calculate_days_since_last_donation fi now (PyDatetime dt)
        = max 0 ((now - wall_us dt) div us_per_day)"
    by (simp add: calculate_days_since_last_donation_def days_since_try_datetime)
  from none bad other good dt days_since_nonneg [of fi now v] show ?thesis
    by (intro conjI)
qed

theorem calculate_days_since_last_donation_cases_witness:
  "calculate_days_since_last_donation example_fromisoformat (75 * us_per_day + 5)
      (PyStr ''2024-01-01T00:00:00Z'') = 75
   \<and> calculate_days_since_last_donation example_fromisoformat (75 * us_per_day + 5)
      (PyStr ''last tuesday'') = 365"
proof -
  have ok: "''2024-01-01T00:00:00Z'' \<noteq> []
      \<and> example_fromisoformat (replace_Z ''2024-01-01T00:00:00Z'')
          = Inr \<lparr>wall_us = 0, tzinfo = Some 0\<rparr>"
    by (simp add: example_fromisoformat_def)
  have bad: "example_fromisoformat (replace_Z ''last tuesday'') = Inl ValueError"
    by (simp add: example_fromisoformat_def)
  from calculate_days_since_last_donation_cases
         [of example_fromisoformat "75 * us_per_day + 5" "''2024-01-01T00:00:00Z''"] ok
  have "calculate_days_since_last_donation example_fromisoformat (75 * us_per_day + 5)
      (PyStr ''2024-01-01T00:00:00Z'')
        = max 0 ((75 * us_per_day + 5 - wall_us \<lparr>wall_us = 0, tzinfo = Some 0\<rparr>)
                   div us_per_day)"
    by blast
  moreover
  have "max 0 ((75 * us_per_day + 5 - wall_us \<lparr>wall_us = 0, tzinfo = Some 0\<rparr>)
                 div us_per_day) = 75"
    by (simp add: us_per_day_def)
  moreover
  from calculate_days_since_last_donation_cases
         [of example_fromisoformat "75 * us_per_day + 5" "''last tuesday''"] bad
  have "calculate_days_since_last_donation example_fromisoformat (75 * us_per_day + 5)
      (PyStr ''last tuesday'') = 365"
    by blast
  ultimately show ?thesis by simp
qed

subsection \<open>The feature vector\<close>

lemma float_range: "(2::real) ^ 1023 \<le> 2 ^ 1024 - 2 ^ 970"
proof -
  have "(2::real) ^ 970 \<le> 2 ^ 1023" by (rule power_increasing) simp_all
  moreover have "(2::real) ^ 1024 = 2 * 2 ^ 1023" by simp
  ultimately show ?thesis by linarith
qed

lemma small_no_overflow: "\<bar>x\<bar> < 2 ^ 1023 \<Longrightarrow> \<not> float_overflow x"
  using float_range by (simp add: float_overflow_def)

lemma quotient_le: "1 \<le> b \<Longrightarrow> \<bar>real_of_int a / real_of_int b\<bar> \<le> \<bar>real_of_int a\<bar>"
proof -
  assume b: "1 \<le> b"
  then have "\<bar>real_of_int a\<bar> / real_of_int b \<le> \<bar>real_of_int a\<bar> / 1"
    by (intro divide_left_mono) simp_all
  with b show ?thesis by simp
qed

lemma rate_no_overflow:
  "\<bar>f\<bar> < 2 ^ 1023 \<Longrightarrow> \<not> float_overflow (spec_donationRate f age)"
proof -
  assume "\<bar>f\<bar> < 2 ^ 1023"
  then have "real_of_int \<bar>f\<bar> < real_of_int (2 ^ 1023)" by (simp only: of_int_less_iff)
  then have "\<bar>real_of_int f\<bar> < 2 ^ 1023" by simp
  moreover have "\<bar>spec_donationRate f age\<bar> \<le> \<bar>real_of_int f\<bar>"
    unfolding spec_donationRate_def by (rule quotient_le) simp
  ultimately show ?thesis by (intro small_no_overflow) linarith
qed

lemma recency_range:
  "0 \<le> d \<Longrightarrow> 0 \<le> spec_recencyScore d \<and> spec_recencyScore d \<le> 1"
  by (simp add: spec_recencyScore_def)

lemma recency_no_overflow: "0 \<le> d \<Longrightarrow> \<not> float_overflow (spec_recencyScore d)"
proof -
  assume "0 \<le> d"
  then have "\<bar>spec_recencyScore d\<bar> \<le> 1" using recency_range [of d] by simp
  moreover have "(1::real) < 2 ^ 1023" by (rule one_less_power) simp_all
  ultimately show ?thesis by (intro small_no_overflow) linarith
qed

lemma feature_vector_eq:
  assumes "0 \<le> d"
  shows "feature_vector age f d rf hc =
     (if float_overflow (spec_donationRate f age) then Inl OverflowError
      else Inr [real_of_int age, real_of_int f, real_of_int d, rf, real hc,
                spec_donationRate f age, spec_recencyScore d])"
proof -
  have nz: "max (age - 18) 1 \<noteq> 0" by simp
  have "py_truediv (max 0 (90 - d)) 90 = Inr (spec_recencyScore d)"
    using recency_no_overflow [OF assms]
    by (simp add: py_truediv_def spec_recencyScore_def)
  moreover have "py_truediv f (max (age - 18) 1) =
      (if float_overflow (spec_donationRate f age) then Inl OverflowError
       else Inr (spec_donationRate f age))"
    using nz by (simp add: py_truediv_def spec_donationRate_def)
  ultimately show ?thesis by (simp add: feature_vector_def)
qed

lemma extract_features_eq:
  "extract_features fi now donor =
     (if float_overflow (spec_donationRate (donor_frequency donor) (donor_age donor))
      then Inl OverflowError
      else Inr [real_of_int (donor_age donor), real_of_int (donor_frequency donor),
                real_of_int (donor_days_since fi now donor),
                region_factor (dict_get (dd_region donor) ''unknown''),
                real (health_flags_count (dict_get (dd_healthFlags donor) [])),
                spec_donationRate (donor_frequency donor) (donor_age donor),
                spec_recencyScore (donor_days_since fi now donor)])"
proof -
  have "0 \<le> donor_days_since fi now donor"
    by (simp add: donor_days_since_def days_since_nonneg)
  then show ?thesis by (simp add: extract_features_def feature_vector_eq)
qed

text \<open>
  C3. For every donor record, the feature vector that the code derives has exactly
  seven components, and they are, in this order: age, donationFrequency,
  daysSinceLastDonation, regionFactor, healthFlagsCount, donationRate, recencyScore.
  A vector is derived for every donor record but those whose donation rate is beyond
  the range of a float, where the division raises \<^verbatim>\<open>OverflowError\<close> and there is no
  vector; a frequency of magnitude below \<open>2^1023\<close> never does that.
\<close>

theorem extract_features_order:
  "extract_features fi now donor =
     (if float_overflow (spec_donationRate (donor_frequency donor) (donor_age donor))
      then Inl OverflowError
      else Inr [real_of_int (donor_age donor), real_of_int (donor_frequency donor),
                real_of_int (donor_days_since fi now donor),
                region_factor (dict_get (dd_region donor) ''unknown''),
                real (health_flags_count (dict_get (dd_healthFlags donor) [])),
                spec_donationRate (donor_frequency donor) (donor_age donor),
                spec_recencyScore (donor_days_since fi now donor)])
   \<and> (case extract_features fi now donor of
         Inr v \<Rightarrow> length v = 7
       | Inl e \<Rightarrow> e = OverflowError)
   \<and> (\<bar>donor_frequency donor\<bar> < 2 ^ 1023
        \<longrightarrow> (\<exists>v. extract_features fi now donor = Inr v \<and> length v = 7))"
  by (simp add: extract_features_eq rate_no_overflow)

theorem extract_features_order_witness:
  "extract_features example_fromisoformat 0 example_donor
     = Inr [30, 5, 365, 0.3, 0, 5 / 12, 0]
   \<and> extract_features example_fromisoformat 0
        (example_donor\<lparr>dd_age := Some 18, dd_donationFrequency := Some (10 ^ 310)\<rparr>)
     = Inl OverflowError
   \<and> extract_features example_fromisoformat 0
        \<lparr>dd_age = Some 40, dd_donationFrequency = Some 11, dd_lastDonationDate = None,
         dd_region = Some ''East'', dd_healthFlags = Some [''anaemia'', ''cold'']\<rparr>
     = Inr [40, 11, 365, 0.25, 2, 1 / 2, 0]"
proof -
  have small: "\<not> float_overflow (spec_donationRate 5 30)"
    by (rule rate_no_overflow) simp
  have small': "\<not> float_overflow (spec_donationRate 11 40)"
    by (rule rate_no_overflow) simp
  have big: "float_overflow (spec_donationRate (10 ^ 310) 18)"
    by (simp add: float_overflow_def spec_donationRate_def)
  from extract_features_order [of example_fromisoformat 0 example_donor]
    extract_features_order [of example_fromisoformat 0
      "example_donor\<lparr>dd_age := Some 18, dd_donationFrequency := Some (10 ^ 310)\<rparr>"]
    extract_features_order [of example_fromisoformat 0
      "\<lparr>dd_age = Some 40, dd_donationFrequency = Some 11, dd_lastDonationDate = None,
        dd_region = Some ''East'', dd_healthFlags = Some [''anaemia'', ''cold'']\<rparr>"]
    small small' big
  show ?thesis
    by (simp add: example_donor_def donor_age_def donor_frequency_def donor_days_since_def
        dict_get_def calculate_days_since_last_donation_def region_factor_def region_map_def
        lower_def lower_char_def health_flags_count_def spec_donationRate_def
        spec_recencyScore_def)
qed

text \<open>
  C7. For every age and frequency and every \<open>daysSince \<ge> 0\<close>: the divisor
  \<open>max(age - 18, 1)\<close> is at least 1, so the code divides neither by zero nor by a
  negative number, whatever the age; the sixth component of the derived vector is
  \<open>donationFrequency / max(age - 18, 1)\<close> and the seventh is
  \<open>max(0, 90 - daysSince) / 90\<close>, which lies in \<open>[0, 1]\<close>, is 1 at \<open>daysSince = 0\<close> and is 0
  from 90 days on. The vector is derived unless the donation rate is beyond the range of
  a float (then the division raises \<^verbatim>\<open>OverflowError\<close>), which no frequency of magnitude
  below \<open>2^1023\<close> brings about.
\<close>

theorem derived_features:
  assumes "0 \<le> d"
  shows "1 \<le> max (age - 18) 1
     \<and> feature_vector age f d rf hc \<noteq> Inl ZeroDivisionError
     \<and> feature_vector age f d rf hc =
         (if float_overflow (real_of_int f / real_of_int (max (age - 18) 1))
          then Inl OverflowError
          else Inr [real_of_int age, real_of_int f, real_of_int d, rf, real hc,
                    real_of_int f / real_of_int (max (age - 18) 1),
                    real_of_int (max 0 (90 - d)) / 90])
     \<and> (\<forall>v. feature_vector age f d rf hc = Inr v \<longrightarrow>
            v ! 5 = real_of_int f / real_of_int (max (age - 18) 1)
          \<and> v ! 6 = real_of_int (max 0 (90 - d)) / 90
          \<and> 0 \<le> v ! 6 \<and> v ! 6 \<le> 1
          \<and> (d = 0 \<longrightarrow> v ! 6 = 1)
          \<and> (90 \<le> d \<longrightarrow> v ! 6 = 0))
     \<and> (\<bar>f\<bar> < 2 ^ 1023 \<longrightarrow> (\<exists>v. feature_vector age f d rf hc = Inr v))"
proof -
  have eq: "feature_vector age f d rf hc =
         (if float_overflow (real_of_int f / real_of_int (max (age - 18) 1))
          then Inl OverflowError
          else Inr [real_of_int age, real_of_int f, real_of_int d, rf, real hc,
                    real_of_int f / real_of_int (max (age - 18) 1),
                    real_of_int (max 0 (90 - d)) / 90])"
    using feature_vector_eq [OF assms, of age f rf hc]
    by (simp add: spec_donationRate_def spec_recencyScore_def)
  have div: "1 \<le> max (age - 18) 1" by simp
  have nz: "feature_vector age f d rf hc \<noteq> Inl ZeroDivisionError"
    by (simp add: eq)
  have comp: "\<forall>v. feature_vector age f d rf hc = Inr v \<longrightarrow>
            v ! 5 = real_of_int f / real_of_int (max (age - 18) 1)
          \<and> v ! 6 = real_of_int (max 0 (90 - d)) / 90
          \<and> 0 \<le> v ! 6 \<and> v ! 6 \<le> 1
          \<and> (d = 0 \<longrightarrow> v ! 6 = 1)
          \<and> (90 \<le> d \<longrightarrow> v ! 6 = 0)"
    using assms by (auto simp: eq split: if_splits)
  have ex: "\<bar>f\<bar> < 2 ^ 1023 \<longrightarrow> (\<exists>v. feature_vector age f d rf hc = Inr v)"
    using rate_no_overflow [of f age] by (simp add: eq spec_donationRate_def)
  from div nz eq comp ex show ?thesis by (intro conjI)
qed

theorem derived_features_witness:
  "(0::int) \<le> 75
   \<and> feature_vector 18 4 75 0.3 0 = Inr [18, 4, 75, 0.3, 0, 4, 1 / 6]
   \<and> feature_vector 18 (10 ^ 310) 75 0.3 0 = Inl OverflowError"
proof -
  have h: "(0::int) \<le> 75" by simp
  have small: "\<not> float_overflow (real_of_int 4 / real_of_int (max (18 - 18) 1))"
    using rate_no_overflow [of 4 18] by (simp add: spec_donationRate_def)
  have big: "float_overflow (real_of_int (10 ^ 310) / real_of_int (max (18 - 18) 1))"
    by (simp add: float_overflow_def)
  from derived_features [OF h, of 18 4 "0.3" 0] small
  have a: "feature_vector 18 4 75 0.3 0 = Inr [18, 4, 75, 0.3, 0, 4, 1 / 6]"
    by simp
  from derived_features [OF h, of 18 "10 ^ 310" "0.3" 0] big
  have b: "feature_vector 18 (10 ^ 310) 75 0.3 0 = Inl OverflowError"
    by (simp only: if_True)
  from h a b show ?thesis by (intro conjI)
qed

text \<open>
  C6. The region factor of a string is the table's value for its lower-cased form:
  0.20 for north, 0.30 for south, 0.25 for east and for west, 0.30 for central, 0.20
  for unknown; so every casing of a known region has the region's value. A string
  whose lower-cased form is no key of the table, and an absent region (for which the
  code takes \<^verbatim>\<open>'unknown'\<close>), have 0.20, the value of unknown.
\<close>

theorem region_factor_table:
  "region_factor region =
     (if lower region = ''north'' then 0.20
      else if lower region = ''south'' then 0.30
      else if lower region = ''east'' then 0.25
      else if lower region = ''west'' then 0.25
      else if lower region = ''central'' then 0.30
      else if lower region = ''unknown'' then 0.20
      else 0.20)
   \<and> (lower region \<notin> set (map fst region_map)
        \<longrightarrow> region_factor region = region_factor ''unknown'')
   \<and> region_factor ''unknown'' = 0.20
   \<and> region_factor (dict_get None ''unknown'') = 0.20
   \<and> region_factor ''NORTH'' = 0.20 \<and> region_factor ''North'' = 0.20"
  by (simp add: region_factor_def region_map_def dict_get_def lower_def lower_char_def)

theorem region_factor_table_witness:
  "lower ''Mars'' \<notin> set (map fst region_map) \<and> region_factor ''Mars'' = 0.20
   \<and> region_factor ''CeNtRaL'' = 0.30"
proof -
  have l: "lower ''Mars'' = ''mars'' \<and> lower ''CeNtRaL'' = ''central''"
    by (simp add: lower_def lower_char_def dict_get_def)
  then have n: "lower ''Mars'' \<notin> set (map fst region_map)"
    by (simp add: region_map_def)
  from region_factor_table [of "''Mars''"] region_factor_table [of "''CeNtRaL''"] l n
  show ?thesis by simp
qed

subsection \<open>The score that is returned\<close>

lemma rint_of_int: "rint (of_int n) = n" by (simp add: rint_def Let_def)
lemma rint_lower: "of_int n \<le> x \<Longrightarrow> n \<le> rint x"
proof -
  assume "of_int n \<le> x"
  then have "n \<le> \<lfloor>x\<rfloor>" by (simp add: le_floor_iff)
  moreover have "\<lfloor>x\<rfloor> \<le> rint x" by (simp add: rint_def Let_def)
  ultimately show ?thesis by simp
qed
lemma rint_upper: "x \<le> of_int n \<Longrightarrow> rint x \<le> n"
proof (cases "x = of_int n")
  case True then show ?thesis by (simp add: rint_of_int)
next
  case False
  assume "x \<le> of_int n"
  with False have "x < of_int n" by simp
  then have "\<lfloor>x\<rfloor> < n" by (simp add: floor_less_iff)
  moreover have "rint x \<le> \<lfloor>x\<rfloor> + 1" by (simp add: rint_def Let_def)
  ultimately show ?thesis by simp
qed
lemma round2_bounds: "0 \<le> x \<Longrightarrow> x \<le> 100 \<Longrightarrow> 0 \<le> round2 x \<and> round2 x \<le> 100"
proof -
  assume a: "0 \<le> x" "x \<le> 100"
  from a have "real_of_int 0 \<le> x * 100" by simp
  then have lo: "0 \<le> rint (x * 100)" by (rule rint_lower)
  from a have "x * 100 \<le> real_of_int 10000" by simp
  then have hi: "rint (x * 100) \<le> 10000" by (rule rint_upper)
  from lo hi show ?thesis by (simp add: round2_def)
qed
lemma round2_of_int: "round2 (of_int n) = of_int n"
proof -
  have "real_of_int n * 100 = real_of_int (n * 100)" by simp
  then have "rint (real_of_int n * 100) = n * 100" by (simp only: rint_of_int)
  then show ?thesis by (simp add: round2_def)
qed

lemma rint_nearest:
  "\<bar>real_of_int (rint y) - y\<bar> \<le> 1 / 2
   \<and> (\<bar>real_of_int (rint y) - y\<bar> = 1 / 2 \<longrightarrow> even (rint y))"
proof -
  have lo: "real_of_int \<lfloor>y\<rfloor> \<le> y" by simp
  have hi: "y < real_of_int \<lfloor>y\<rfloor> + 1" by linarith
  show ?thesis
  proof (cases "y - real_of_int \<lfloor>y\<rfloor> < 1 / 2")
    case True
    with lo have "rint y = \<lfloor>y\<rfloor>" and "\<bar>real_of_int \<lfloor>y\<rfloor> - y\<bar> < 1 / 2"
      by (simp_all add: rint_def Let_def)
    then show ?thesis by simp
  next
    case False
    note nlt = this
    show ?thesis
    proof (cases "1 / 2 < y - real_of_int \<lfloor>y\<rfloor>")
      case True
      with nlt have "rint y = \<lfloor>y\<rfloor> + 1" by (simp add: rint_def Let_def)
      moreover from True hi have "\<bar>real_of_int (\<lfloor>y\<rfloor> + 1) - y\<bar> < 1 / 2" by simp
      ultimately show ?thesis by simp
    next
      case False
      with nlt have half: "y - real_of_int \<lfloor>y\<rfloor> = 1 / 2" by simp
      then have r: "rint y = (if even \<lfloor>y\<rfloor> then \<lfloor>y\<rfloor> else \<lfloor>y\<rfloor> + 1)"
        by (simp add: rint_def Let_def)
      show ?thesis
      proof (cases "even \<lfloor>y\<rfloor>")
        case True
        with r half show ?thesis by simp
      next
        case False
        with r have "rint y = \<lfloor>y\<rfloor> + 1" by simp
        moreover from half have "\<bar>real_of_int (\<lfloor>y\<rfloor> + 1) - y\<bar> = 1 / 2" by simp
        moreover from False have "even (\<lfloor>y\<rfloor> + 1)" by simp
        ultimately show ?thesis by simp
      qed
    qed
  qed
qed

lemma round2_nearest:
  "\<exists>k. round2 x = real_of_int k / 100
      \<and> \<bar>round2 x - x\<bar> \<le> 1 / 200
      \<and> (\<bar>round2 x - x\<bar> = 1 / 200 \<longrightarrow> even k)"
proof -
  let ?k = "rint (x * 100)"
  let ?a = "\<bar>real_of_int ?k - x * 100\<bar>"
  have d: "round2 x - x = (real_of_int ?k - x * 100) / 100"
    by (simp add: round2_def field_simps)
  have a: "\<bar>round2 x - x\<bar> = ?a / 100"
    unfolding d by simp
  from rint_nearest [of "x * 100"]
  have n: "?a \<le> 1 / 2" and e: "?a = 1 / 2 \<longrightarrow> even ?k"
    by blast+
  have 1: "round2 x = real_of_int ?k / 100" by (simp add: round2_def)
  have 2: "\<bar>round2 x - x\<bar> \<le> 1 / 200"
    unfolding a using n by simp
  have 3: "\<bar>round2 x - x\<bar> = 1 / 200 \<longrightarrow> even ?k"
  proof
    assume "\<bar>round2 x - x\<bar> = 1 / 200"
    then have "?a / 100 = 1 / 200" by (simp only: a)
    then have "?a = 1 / 2" by simp
    with e show "even ?k" by blast
  qed
  from 1 2 3 show ?thesis by blast
qed

lemma round2_ties: "round2 0.125 = 0.12 \<and> round2 0.375 = 0.38 \<and> round2 87.656 = 87.66"
  by (simp add: round2_def rint_def Let_def)

lemma fallback_score_bounds:
  "0 \<le> calculate_fallback_score age f d \<and> calculate_fallback_score age f d \<le> 100"
  by (simp add: calculate_fallback_score_def)

lemma choose_score_cases:
  "(choose_score g scaled age f d = real_of_int (calculate_fallback_score age f d)
      \<and> (g_model g = None \<or> (\<exists>m e. g_model g = Some m \<and> m scaled = Inl e)))
   \<or> (\<exists>m p. g_model g = Some m \<and> m scaled = Inr p
          \<and> choose_score g scaled age f d = max 0 (min 100 (p * 100)))"
  by (auto simp: choose_score_def split: option.splits sum.splits)

lemma choose_score_bounds:
  "0 \<le> choose_score g scaled age f d \<and> choose_score g scaled age f d \<le> 100"
  using fallback_score_bounds [of age f d]
  by (auto simp: choose_score_def split: option.splits sum.splits)

text \<open>
  C8. Whichever path produced the score, the value that \<^verbatim>\<open>predict_availability\<close>
  returns lies in \<open>[0, 100]\<close> and is the chosen score rounded to two decimal places: a
  multiple of \<open>1/100\<close> at most \<open>1/200\<close> from the chosen score, the even multiple when two
  are that near. The chosen score is the fallback score (no model, or the model's
  \<^verbatim>\<open>predict\<close> raised), an integer that the rounding leaves as it is, or the model's
  prediction times 100, clamped to \<open>[0, 100]\<close>. No score is returned in two cases: the
  donation rate is beyond the range of a float, and \<^verbatim>\<open>OverflowError\<close> leaves the
  function; or the scaler's \<^verbatim>\<open>transform\<close> raises, and its exception does.
\<close>

theorem predict_availability_score_range:
  "(case extract_features fi now donor of
      Inl e \<Rightarrow>
        e = OverflowError
        \<and> float_overflow (spec_donationRate (donor_frequency donor) (donor_age donor))
        \<and> predict_availability g fi now donor = Inl e
    | Inr features \<Rightarrow>
        (case scale_features g features of
           Inl e \<Rightarrow> predict_availability g fi now donor = Inl e
         | Inr scaled \<Rightarrow>
             (\<exists>chosen score.
                predict_availability g fi now donor = Inr score
              \<and> chosen = choose_score g scaled (donor_age donor) (donor_frequency donor)
                           (donor_days_since fi now donor)
              \<and> 0 \<le> chosen \<and> chosen \<le> 100
              \<and> score = round2 chosen
              \<and> (\<exists>k. score = real_of_int k / 100
                     \<and> \<bar>score - chosen\<bar> \<le> 1 / 200
                     \<and> (\<bar>score - chosen\<bar> = 1 / 200 \<longrightarrow> even k))
              \<and> 0 \<le> score \<and> score \<le> 100
              \<and> ((chosen = real_of_int (calculate_fallback_score (donor_age donor)
                              (donor_frequency donor) (donor_days_since fi now donor))
                   \<and> score = chosen
                   \<and> (g_model g = None \<or> (\<exists>m e. g_model g = Some m \<and> m scaled = Inl e)))
                 \<or> (\<exists>m p. g_model g = Some m \<and> m scaled = Inr p
                       \<and> chosen = max 0 (min 100 (p * 100)))))))"
proof (cases "extract_features fi now donor")
  case (Inl e)
  then have "e = OverflowError
        \<and> float_overflow (spec_donationRate (donor_frequency donor) (donor_age donor))"
    by (simp add: extract_features_eq split: if_splits)
  with Inl show ?thesis by (simp add: predict_availability_def)
next
  case ef: (Inr features)
  show ?thesis
  proof (cases "scale_features g features")
    case (Inl e)
    with ef show ?thesis by (simp add: predict_availability_def)
  next
    case (Inr scaled)
    let ?c = "choose_score g scaled (donor_age donor) (donor_frequency donor)
                      (donor_days_since fi now donor)"
    have p: "predict_availability g fi now donor = Inr (round2 ?c)"
      using ef Inr by (simp add: predict_availability_def)
    have b: "0 \<le> ?c \<and> ?c \<le> 100" by (rule choose_score_bounds)
    then have rb: "0 \<le> round2 ?c \<and> round2 ?c \<le> 100" by (simp add: round2_bounds)
    have near: "\<exists>k. round2 ?c = real_of_int k / 100
                     \<and> \<bar>round2 ?c - ?c\<bar> \<le> 1 / 200
                     \<and> (\<bar>round2 ?c - ?c\<bar> = 1 / 200 \<longrightarrow> even k)"
      by (rule round2_nearest)
    have cases: "(?c = real_of_int (calculate_fallback_score (donor_age donor)
                         (donor_frequency donor) (donor_days_since fi now donor))
              \<and> round2 ?c = ?c
              \<and> (g_model g = None \<or> (\<exists>m e. g_model g = Some m \<and> m scaled = Inl e)))
            \<or> (\<exists>m p. g_model g = Some m \<and> m scaled = Inr p
                  \<and> ?c = max 0 (min 100 (p * 100)))"
      using choose_score_cases [of g scaled "donor_age donor" "donor_frequency donor"
          "donor_days_since fi now donor"]
      by (auto simp: round2_of_int)
    from p b rb near cases
    have "\<exists>chosen score.
                predict_availability g fi now donor = Inr score
              \<and> chosen = ?c
              \<and> 0 \<le> chosen \<and> chosen \<le> 100
              \<and> score = round2 chosen
              \<and> (\<exists>k. score = real_of_int k / 100
                     \<and> \<bar>score - chosen\<bar> \<le> 1 / 200
                     \<and> (\<bar>score - chosen\<bar> = 1 / 200 \<longrightarrow> even k))
              \<and> 0 \<le> score \<and> score \<le> 100
              \<and> ((chosen = real_of_int (calculate_fallback_score (donor_age donor)
                              (donor_frequency donor) (donor_days_since fi now donor))
                   \<and> score = chosen
                   \<and> (g_model g = None \<or> (\<exists>m e. g_model g = Some m \<and> m scaled = Inl e)))
                 \<or> (\<exists>m p. g_model g = Some m \<and> m scaled = Inr p
                       \<and> chosen = max 0 (min 100 (p * 100))))"
      by simp
    with ef Inr show ?thesis by simp
  qed
qed

lemma example_rate_ok: "\<not> float_overflow (5 / 12)"
  using rate_no_overflow [of 5 30] by (simp add: spec_donationRate_def)

lemma example_features:
  "extract_features fi now example_donor = Inr [30, 5, 365, 0.3, 0, 5 / 12, 0]"
  by (simp add: extract_features_eq example_donor_def donor_age_def donor_frequency_def
      donor_days_since_def dict_get_def calculate_days_since_last_donation_def
      region_factor_def region_map_def lower_def lower_char_def health_flags_count_def
      spec_donationRate_def spec_recencyScore_def example_rate_ok)

theorem predict_availability_score_range_witness:
  "predict_availability \<lparr>g_model = Some (\<lambda>features. Inr 0.87656), g_scaler = None\<rparr>
     example_fromisoformat 0 example_donor = Inr 87.66
   \<and> predict_availability \<lparr>g_model = Some (\<lambda>features. Inr 0.00125), g_scaler = None\<rparr>
     example_fromisoformat 0 example_donor = Inr 0.12
   \<and> predict_availability \<lparr>g_model = None, g_scaler = None\<rparr>
     example_fromisoformat 0 example_donor = Inr 75"
proof -
  have fb: "calculate_fallback_score 30 5 365 = 75"
    by (simp add: calculate_fallback_score_def fallback_sum_def age_factor_def
        frequency_factor_def recency_factor_def)
  have days: "donor_days_since example_fromisoformat 0 example_donor = 365"
    by (simp add: donor_days_since_def example_donor_def dict_get_def
        calculate_days_since_last_donation_def)
  have a: "predict_availability \<lparr>g_model = Some (\<lambda>features. Inr 0.87656), g_scaler = None\<rparr>
     example_fromisoformat 0 example_donor = Inr 87.66"
    by (simp add: predict_availability_def example_features scale_features_def
        choose_score_def round2_def rint_def Let_def)
  have b: "predict_availability \<lparr>g_model = Some (\<lambda>features. Inr 0.00125), g_scaler = None\<rparr>
     example_fromisoformat 0 example_donor = Inr 0.12"
    by (simp add: predict_availability_def example_features scale_features_def
        choose_score_def round2_def rint_def Let_def)
  from predict_availability_score_range
     [where fi = example_fromisoformat and now = 0 and donor = example_donor
        and g = "\<lparr>g_model = None, g_scaler = None\<rparr>"]
  obtain chosen score where
    p: "predict_availability \<lparr>g_model = None, g_scaler = None\<rparr>
          example_fromisoformat 0 example_donor = Inr score"
    and "chosen = choose_score \<lparr>g_model = None, g_scaler = None\<rparr>
          [30, 5, 365, 0.3, 0, 5 / 12, 0] (donor_age example_donor)
          (donor_frequency example_donor)
          (donor_days_since example_fromisoformat 0 example_donor)"
    and "score = round2 chosen"
    by (auto simp: example_features scale_features_def)
  then have "score = round2 75"
    using fb days
    by (simp add: choose_score_def example_donor_def donor_age_def donor_frequency_def
        dict_get_def)
  then have "score = 75" using round2_of_int [of 75] by simp
  with p have c: "predict_availability \<lparr>g_model = None, g_scaler = None\<rparr>
     example_fromisoformat 0 example_donor = Inr 75"
    by simp
  from a b c show ?thesis by (intro conjI)
qed

subsection \<open>The endpoint, end to end\<close>

lemma whole_days_75:
  "75 * us_per_day \<le> x \<Longrightarrow> x < 76 * us_per_day \<Longrightarrow> x div us_per_day = 75"
  unfolding us_per_day_def by simp

lemma days_75:
  assumes "date = PyDatetime d \<or> (date = PyStr s \<and> s \<noteq> [] \<and> fi (replace_Z s) = Inr d)"
    and "75 * us_per_day \<le> now - wall_us d" and "now - wall_us d < 76 * us_per_day"
  shows "calculate_days_since_last_donation fi now date = 75"
proof -
  have "(now - wall_us d) div us_per_day = 75"
    using assms(2,3) by (rule whole_days_75)
  with assms(1) show ?thesis
    by (auto simp: calculate_days_since_last_donation_def days_since_try_datetime
        days_since_try_str)
qed

text \<open>
  C9. The request \<^verbatim>\<open>{age: 30, donationFrequency: 5, lastDonationDate: 75 days ago,
  region: "south", healthFlags: []}\<close>, with no model loaded, is answered with
  \<open>availabilityScore = 95 = 50 + 15 + 15 + 15\<close>, \<open>model_used = fallback\<close> and
  \<open>confidence = 0.70\<close>. The date is a \<^verbatim>\<open>datetime\<close>, or a string that parses to one,
  whose reading lies at least 75 and less than 76 days before the clock's; the scaler is
  absent, or present and its \<^verbatim>\<open>transform\<close> does not raise on the donor's features.
\<close>

theorem predict_end_to_end_fallback:
  assumes "g_model g = None"
    and "g_scaler g = None \<or> (\<exists>transform scaled. g_scaler g = Some transform
            \<and> transform [30, 5, 75, 0.3, 0, 5 / 12, 1 / 6] = Inr scaled)"
    and "date = PyDatetime d \<or> (date = PyStr s \<and> s \<noteq> [] \<and> fi (replace_Z s) = Inr d)"
    and "75 * us_per_day \<le> now - wall_us d" and "now - wall_us d < 76 * us_per_day"
  shows "predict g fi now
           (Some \<lparr>rq_donorId = donor_id, rq_age = Some 30, rq_donationFrequency = Some 5,
                  rq_lastDonationDate = Some date, rq_region = Some ''south'',
                  rq_healthFlags = Some [], rq_other_keys = other\<rparr>)
         = Http200 \<lparr>success = True, donorId = donor_id, availabilityScore = 95,
                    confidence = 0.70, model_used = ''fallback''\<rparr>
       \<and> calculate_fallback_score 30 5 75 = 50 + 15 + 15 + 15"
proof -
  let ?donor = "\<lparr>dd_age = Some 30, dd_donationFrequency = Some 5,
      dd_lastDonationDate = Some date, dd_region = Some ''south'', dd_healthFlags = Some []\<rparr>"
  have days: "donor_days_since fi now ?donor = 75"
    using days_75 [of date d s fi now] assms(3,4,5)
    by (simp add: donor_days_since_def dict_get_def)
  have feats: "extract_features fi now ?donor = Inr [30, 5, 75, 0.3, 0, 5 / 12, 1 / 6]"
    by (simp add: extract_features_eq days donor_age_def
        donor_frequency_def dict_get_def region_factor_def region_map_def lower_def
        lower_char_def health_flags_count_def spec_donationRate_def spec_recencyScore_def
        example_rate_ok)
  have fb: "calculate_fallback_score 30 5 75 = 95"
    by (simp add: calculate_fallback_score_def fallback_sum_def age_factor_def
        frequency_factor_def recency_factor_def)
  from assms(2) obtain scaled where
    sc: "scale_features g [30, 5, 75, 0.3, 0, 5 / 12, 1 / 6] = Inr scaled"
    by (auto simp: scale_features_def)
  have "choose_score g scaled 30 5 75 = 95"
    using assms(1) fb by (simp add: choose_score_def)
  then have pa: "predict_availability g fi now ?donor = Inr 95"
    using feats sc days round2_of_int [of 95]
    by (simp add: predict_availability_def donor_age_def donor_frequency_def dict_get_def)
  have "predict g fi now
           (Some \<lparr>rq_donorId = donor_id, rq_age = Some 30, rq_donationFrequency = Some 5,
                  rq_lastDonationDate = Some date, rq_region = Some ''south'',
                  rq_healthFlags = Some [], rq_other_keys = other\<rparr>)
         = Http200 \<lparr>success = True, donorId = donor_id, availabilityScore = 95,
                    confidence = 0.70, model_used = ''fallback''\<rparr>"
    using pa assms(1) by (simp add: predict_def empty_dict_def dict_get_def)
  with fb show ?thesis by simp
qed

theorem predict_end_to_end_fallback_witness:
  "predict \<lparr>g_model = None, g_scaler = None\<rparr> example_fromisoformat (75 * us_per_day + 5)
           (Some \<lparr>rq_donorId = Some ''d1'', rq_age = Some 30, rq_donationFrequency = Some 5,
                  rq_lastDonationDate = Some (PyStr ''2024-01-01T00:00:00Z''),
                  rq_region = Some ''south'',
                  rq_healthFlags = Some [], rq_other_keys = False\<rparr>)
         = Http200 \<lparr>success = True, donorId = Some ''d1'', availabilityScore = 95,
                    confidence = 0.70, model_used = ''fallback''\<rparr>"
proof -
  have h1: "g_model \<lparr>g_model = None, g_scaler = None\<rparr> = None" by simp
  have h2: "g_scaler \<lparr>g_model = None, g_scaler = None\<rparr> = None
     \<or> (\<exists>transform scaled. g_scaler \<lparr>g_model = None, g_scaler = None\<rparr> = Some transform
            \<and> transform [30, 5, 75, 0.3, 0, 5 / 12, 1 / 6] = Inr scaled)" by simp
  have h3: "PyStr ''2024-01-01T00:00:00Z'' = PyDatetime \<lparr>wall_us = 0, tzinfo = Some 0\<rparr>
     \<or> (PyStr ''2024-01-01T00:00:00Z'' = PyStr ''2024-01-01T00:00:00Z''
         \<and> ''2024-01-01T00:00:00Z'' \<noteq> []
         \<and> example_fromisoformat (replace_Z ''2024-01-01T00:00:00Z'')
              = Inr \<lparr>wall_us = 0, tzinfo = Some 0\<rparr>)"
    by (simp add: example_fromisoformat_def)
  have h4: "75 * us_per_day \<le> (75 * us_per_day + 5) - wall_us \<lparr>wall_us = 0, tzinfo = Some 0\<rparr>"
    by simp
  have h5: "(75 * us_per_day + 5) - wall_us \<lparr>wall_us = 0, tzinfo = Some 0\<rparr> < 76 * us_per_day"
    by (simp add: us_per_day_def)
  from predict_end_to_end_fallback
         [of "\<lparr>g_model = None, g_scaler = None\<rparr>"
             "PyStr ''2024-01-01T00:00:00Z''" "\<lparr>wall_us = 0, tzinfo = Some 0\<rparr>"
             "''2024-01-01T00:00:00Z''" example_fromisoformat "75 * us_per_day + 5"
             "Some ''d1''" False]
       h1 h2 h3 h4 h5
  show ?thesis by blast
qed

subsection \<open>Where the code leaves the specification\<close>

lemma predict_labels_follow_model_loaded:
  assumes "predict g fi now body = Http200 r"
  shows "confidence r = (if g_model g \<noteq> None then 0.85 else 0.70)
       \<and> model_used r = (if g_model g \<noteq> None then ''trained'' else ''fallback'')"
  using assms
  by (auto simp: predict_def Let_def split: option.splits if_splits sum.splits)

text \<open>
  C1. The claim: when the model is loaded and its \<^verbatim>\<open>predict\<close> raises, the result has
  \<open>model_used = fallback\<close> and \<open>confidence = 0.70\<close>. The code: the handler derives both
  fields from \<^verbatim>\<open>model\<close> being loaded, so at such a request the score is the fallback
  score and the result says \<open>trained\<close> and 0.85.
\<close>

theorem predict_labels_trained_when_model_fails:
  "predict \<lparr>g_model = Some (\<lambda>features. Inl ValueError), g_scaler = None\<rparr>
       example_fromisoformat 0
       (Some \<lparr>rq_donorId = None, rq_age = Some 30, rq_donationFrequency = Some 5,
              rq_lastDonationDate = None, rq_region = Some ''south'',
              rq_healthFlags = Some [], rq_other_keys = False\<rparr>)
     = Http200 \<lparr>success = True, donorId = None,
                availabilityScore = real_of_int (calculate_fallback_score 30 5 365),
                confidence = 0.85, model_used = ''trained''\<rparr>
   \<and> calculate_fallback_score 30 5 365 = 75"
proof -
  let ?g = "\<lparr>g_model = Some (\<lambda>features. Inl ValueError), g_scaler = None\<rparr>"
  let ?donor = "\<lparr>dd_age = Some 30, dd_donationFrequency = Some 5,
      dd_lastDonationDate = Some PyNone, dd_region = Some ''south'',
      dd_healthFlags = Some []\<rparr>"
  have days: "donor_days_since example_fromisoformat 0 ?donor = 365"
    by (simp add: donor_days_since_def dict_get_def calculate_days_since_last_donation_def)
  have fb: "calculate_fallback_score 30 5 365 = 75"
    by (simp add: calculate_fallback_score_def fallback_sum_def age_factor_def
        frequency_factor_def recency_factor_def)
  obtain features where
    feats: "extract_features example_fromisoformat 0 ?donor = Inr features"
    by (simp add: extract_features_eq donor_age_def donor_frequency_def dict_get_def
        spec_donationRate_def example_rate_ok)
  have "choose_score ?g features 30 5 365 = 75"
    using fb by (simp add: choose_score_def)
  then have pa: "predict_availability ?g example_fromisoformat 0 ?donor = Inr 75"
    using feats days round2_of_int [of 75]
    by (simp add: predict_availability_def scale_features_def donor_age_def
        donor_frequency_def dict_get_def)
  show ?thesis
    using pa fb by (simp add: predict_def empty_dict_def dict_get_def)
qed

text \<open>
  C2. The claim: every failure of the model path, the scaler's \<^verbatim>\<open>transform\<close> included,
  ends in the fallback score, and no exception leaves \<^verbatim>\<open>predict_availability\<close>. The
  code: \<^verbatim>\<open>transform\<close> is called before the \<^verbatim>\<open>try\<close>, so its exception leaves
  \<^verbatim>\<open>predict_availability\<close> and the endpoint answers 500; an exception of the model's
  \<^verbatim>\<open>predict\<close>, inside the \<^verbatim>\<open>try\<close>, does end in the fallback score. The exception of
  \<^verbatim>\<open>transform\<close> leaves the function even when no model is loaded and the fallback
  score, which needs no scaled features, would have been the result.
\<close>

theorem transform_failure_escapes_predict_availability:
  "predict_availability
       \<lparr>g_model = Some (\<lambda>features. Inr 0.5), g_scaler = Some (\<lambda>features. Inl ValueError)\<rparr>
       example_fromisoformat 0
       \<lparr>dd_age = Some 30, dd_donationFrequency = Some 5, dd_lastDonationDate = Some PyNone,
        dd_region = Some ''south'', dd_healthFlags = Some []\<rparr>
     = Inl ValueError
   \<and> predict
       \<lparr>g_model = Some (\<lambda>features. Inr 0.5), g_scaler = Some (\<lambda>features. Inl ValueError)\<rparr>
       example_fromisoformat 0
       (Some \<lparr>rq_donorId = None, rq_age = Some 30, rq_donationFrequency = Some 5,
              rq_lastDonationDate = None, rq_region = Some ''south'',
              rq_healthFlags = Some [], rq_other_keys = False\<rparr>)
     = Http500 ValueError
   \<and> predict_availability
       \<lparr>g_model = Some (\<lambda>features. Inl ValueError), g_scaler = None\<rparr>
       example_fromisoformat 0
       \<lparr>dd_age = Some 30, dd_donationFrequency = Some 5, dd_lastDonationDate = Some PyNone,
        dd_region = Some ''south'', dd_healthFlags = Some []\<rparr>
     = Inr (real_of_int (calculate_fallback_score 30 5 365))
   \<and> predict_availability
       \<lparr>g_model = None, g_scaler = Some (\<lambda>features. Inl ValueError)\<rparr>
       example_fromisoformat 0
       \<lparr>dd_age = Some 30, dd_donationFrequency = Some 5, dd_lastDonationDate = Some PyNone,
        dd_region = Some ''south'', dd_healthFlags = Some []\<rparr>
     = Inl ValueError"
proof -
  let ?donor = "\<lparr>dd_age = Some 30, dd_donationFrequency = Some 5,
      dd_lastDonationDate = Some PyNone, dd_region = Some ''south'',
      dd_healthFlags = Some []\<rparr>"
  let ?g = "\<lparr>g_model = Some (\<lambda>features. Inr 0.5),
             g_scaler = Some (\<lambda>features. Inl ValueError)\<rparr>"
  let ?h = "\<lparr>g_model = Some (\<lambda>features. Inl ValueError), g_scaler = None\<rparr>"
  obtain features where
    feats: "extract_features example_fromisoformat 0 ?donor = Inr features"
    by (simp add: extract_features_eq donor_age_def donor_frequency_def dict_get_def
        spec_donationRate_def example_rate_ok)
  have days: "donor_days_since example_fromisoformat 0 ?donor = 365"
    by (simp add: donor_days_since_def dict_get_def calculate_days_since_last_donation_def)
  have pa: "predict_availability ?g example_fromisoformat 0 ?donor = Inl ValueError"
    using feats by (simp add: predict_availability_def scale_features_def)
  have pr: "predict ?g example_fromisoformat 0
       (Some \<lparr>rq_donorId = None, rq_age = Some 30, rq_donationFrequency = Some 5,
              rq_lastDonationDate = None, rq_region = Some ''south'',
              rq_healthFlags = Some [], rq_other_keys = False\<rparr>)
     = Http500 ValueError"
    using pa by (simp add: predict_def empty_dict_def dict_get_def)
  have "choose_score ?h features 30 5 365 = real_of_int (calculate_fallback_score 30 5 365)"
    by (simp add: choose_score_def)
  then have sib: "predict_availability ?h example_fromisoformat 0 ?donor
      = Inr (real_of_int (calculate_fallback_score 30 5 365))"
    using feats days round2_of_int [of "calculate_fallback_score 30 5 365"]
    by (simp add: predict_availability_def scale_features_def donor_age_def
        donor_frequency_def dict_get_def)
  have nomodel: "predict_availability
       \<lparr>g_model = None, g_scaler = Some (\<lambda>features. Inl ValueError)\<rparr>
       example_fromisoformat 0 ?donor = Inl ValueError"
    using feats by (simp add: predict_availability_def scale_features_def)
  from pa pr sib nomodel show ?thesis by (intro conjI)
qed

end
